theory Spec2Isabelle
  imports Main "HOL-Library.List_Lexorder"
begin

section \<open>Python values\<close>

text \<open>
  A Python 3 \<^verbatim>\<open>str\<close> is a sequence of code points: \<open>len\<close> counts code points and
  \<open>sorted\<close> compares strings lexicographically by code point.  A string is therefore a
  list of code points, ordered by the lexicographic order on lists; \<open>lit\<close> embeds a
  literal of the source.
\<close>

type_synonym str = "nat list"

definition lit :: "string \<Rightarrow> str" where
  "lit cs = map of_char cs"

text \<open>The tab character \<^verbatim>\<open>"\t"\<close>, code point 9.\<close>

definition tab :: str where
  "tab = [9]"

text \<open>\<^verbatim>\<open>s.startswith(p)\<close>\<close>

definition startswith :: "str \<Rightarrow> str \<Rightarrow> bool" where
  "startswith s p = (take (length p) s = p)"

text \<open>\<^verbatim>\<open>sep.join(xs)\<close>\<close>

fun join :: "str \<Rightarrow> str list \<Rightarrow> str" where
  "join sep [] = []"
| "join sep [x] = x"
| "join sep (x # y # ys) = x @ sep @ join sep (y # ys)"

text \<open>\<^verbatim>\<open>s.split(sep)\<close> for a separator of one code point; it reads the lines of a text.\<close>

fun split :: "nat \<Rightarrow> str \<Rightarrow> str list" where
  "split c [] = [[]]"
| "split c (x # xs) =
     (if x = c then [] # split c xs
      else (case split c xs of [] \<Rightarrow> [[x]] | l # ls \<Rightarrow> (x # l) # ls))"

text \<open>
  The format field \<^verbatim>\<open>{0:w}\<close> applied to a string: left-aligned, filled with spaces up
  to width \<open>w\<close>, never truncated.
\<close>

definition format_field :: "nat \<Rightarrow> str \<Rightarrow> str" where
  "format_field w s = s @ replicate (w - length s) (of_char CHR '' '')"

text \<open>The format string \<^verbatim>\<open>"{0:%d}  {1}" % w\<close>, applied to two strings.\<close>

definition formatter :: "nat \<Rightarrow> str \<Rightarrow> str \<Rightarrow> str" where
  "formatter w a b = format_field w a @ lit ''  '' @ b"

text \<open>\<^verbatim>\<open>"%s"\<close> applied to a value that is a string or \<open>None\<close>.\<close>

definition percent_s :: "str option \<Rightarrow> str" where
  "percent_s v = (case v of None \<Rightarrow> lit ''None'' | Some s \<Rightarrow> s)"

text \<open>
  A Python set of strings is the list of its elements in iteration order, without
  duplicates.  \<open>union\<close> and \<open>difference\<close> are the set methods of that name.
\<close>

definition union :: "str list \<Rightarrow> str list \<Rightarrow> str list" where
  "union a b = a @ filter (\<lambda>x. x \<notin> set a) (remdups b)"

definition difference :: "str list \<Rightarrow> str list \<Rightarrow> str list" where
  "difference a b = filter (\<lambda>x. x \<notin> set b) a"


section \<open>tagging\_cli: the table of tags\<close>

text \<open>
  \<^verbatim>\<open>zip_longest(list1, list2)\<close>: the shorter list is extended with \<open>None\<close>, then the
  two are zipped.  Both arguments are fresh lists at the only call.
\<close>

definition zip_longest :: "str list \<Rightarrow> str list \<Rightarrow> (str option \<times> str option) list" where
  "zip_longest list1 list2 =
     (let l1 = map Some list1; l2 = map Some list2 in
      if length l1 < length l2
        then zip (l1 @ replicate (length l2 - length l1) None) l2
      else if length l1 > length l2
        then zip l1 (l2 @ replicate (length l1 - length l2) None)
      else zip l1 l2)"

definition header :: "str \<times> str" where
  "header = (lit ''*system tags (immutable)*'', lit ''*customized tags*'')"

definition stag_width :: "str list \<Rightarrow> nat" where
  "stag_width system_tags = Max (set (map length (system_tags @ [fst header])))"

definition ctag_width :: "str list \<Rightarrow> nat" where
  "ctag_width customized_tags = Max (set (map length (customized_tags @ [snd header])))"

text \<open>One row of the loop of \<open>format_tags\<close>: \<open>None\<close> is printed as the empty string.\<close>

definition row :: "nat \<Rightarrow> str option \<times> str option \<Rightarrow> str" where
  "row w p =
     (case p of (stag, ctag) \<Rightarrow>
        formatter w (case stag of None \<Rightarrow> [] | Some s \<Rightarrow> s)
                    (case ctag of None \<Rightarrow> [] | Some s \<Rightarrow> s))"

text \<open>The list \<open>lines\<close> of \<open>format_tags\<close> when the loop is over (Python 3).\<close>

definition lines :: "str list \<Rightarrow> str list \<Rightarrow> str list" where
  "lines system_tags customized_tags =
     (let sw = stag_width system_tags;
          cw = ctag_width customized_tags in
      [formatter (sw + 2) (fst header) (snd header)]
      @ [formatter sw (replicate sw (of_char CHR ''-'')) (replicate cw (of_char CHR ''-''))]
      @ map (row sw) (zip_longest (sort system_tags) (sort customized_tags)))"

definition format_tags :: "str list \<Rightarrow> str list \<Rightarrow> str" where
  "format_tags system_tags customized_tags =
     join (lit ''\<newline>'') (lines system_tags customized_tags)"


section \<open>tagging\_cli: the client and the resolver\<close>

text \<open>
  The metadata client (\<open>Flow\<close>, \<open>Run\<close>, \<open>namespace\<close>, \<open>resolve_identity\<close>) is a
  collaborator outside the two files; it is a parameter.  A lookup answers with the
  object, or raises one of two exceptions.  The client reads the process-wide current
  namespace, which \<open>namespace\<close> sets.
\<close>

record run =
  ident :: str
  tags :: "str list"
  system_tags :: "str list"

record flow =
  latest_run :: "run option"
  runs :: "run list"

datatype 'a lookup = Found 'a | NotFound | NamespaceMismatch

record client =
  flow_lookup :: "str option \<Rightarrow> str \<Rightarrow> flow lookup"
  run_lookup :: "str option \<Rightarrow> str \<Rightarrow> run lookup"
  resolve_identity :: str

datatype error =
    CommandException str
  | MetaflowNotFound
  | MetaflowNamespaceMismatch
  | AttributeError

datatype call =
    NamespaceCall "str option"
  | FlowCall str
  | RunCall str
  | RunsCall
  | ResolveIdentityCall

text \<open>
  The state a command runs in: the current namespace of the client, the calls made to
  the client so far, and what \<open>obj.echo\<close> has printed.
\<close>

record world =
  current_namespace :: "str option"
  calls :: "call list"
  echoed :: "str list"

definition namespace :: "str option \<Rightarrow> world \<Rightarrow> world" where
  "namespace ns w = w\<lparr>current_namespace := ns, calls := calls w @ [NamespaceCall ns]\<rparr>"

definition Flow :: "client \<Rightarrow> str \<Rightarrow> world \<Rightarrow> (error + flow) \<times> world" where
  "Flow c pathspec w =
     (let w' = w\<lparr>calls := calls w @ [FlowCall pathspec]\<rparr> in
      case flow_lookup c (current_namespace w) pathspec of
        Found f \<Rightarrow> (Inr f, w')
      | NotFound \<Rightarrow> (Inl MetaflowNotFound, w')
      | NamespaceMismatch \<Rightarrow> (Inl MetaflowNamespaceMismatch, w'))"

definition Run :: "client \<Rightarrow> str \<Rightarrow> world \<Rightarrow> (error + run) \<times> world" where
  "Run c pathspec w =
     (let w' = w\<lparr>calls := calls w @ [RunCall pathspec]\<rparr> in
      case run_lookup c (current_namespace w) pathspec of
        Found r \<Rightarrow> (Inr r, w')
      | NotFound \<Rightarrow> (Inl MetaflowNotFound, w')
      | NamespaceMismatch \<Rightarrow> (Inl MetaflowNamespaceMismatch, w'))"

definition echo :: "str \<Rightarrow> world \<Rightarrow> world" where
  "echo text w = w\<lparr>echoed := echoed w @ [text]\<rparr>"

definition print_tags :: "run \<Rightarrow> str" where
  "print_tags metaflow_run_client =
     format_tags (system_tags metaflow_run_client)
       (difference (tags metaflow_run_client) (system_tags metaflow_run_client))"

definition check_run_id ::
  "client \<Rightarrow> str option \<Rightarrow> str \<Rightarrow> str option \<Rightarrow> world \<Rightarrow> (error + unit) \<times> world" where
  "check_run_id c user_namespace flow_name run_id w =
     (case run_id of
        Some _ \<Rightarrow> (Inr (), w)
      | None \<Rightarrow>
          (case Flow c flow_name w of
             (Inl e, w1) \<Rightarrow> (Inl e, w1)
           | (Inr f, w1) \<Rightarrow>
               (case latest_run f of
                  None \<Rightarrow> (Inl AttributeError, w1)
                | Some r \<Rightarrow>
                    (Inl (CommandException
                       (lit ''Please run with --run-id: tag add --run-id TEXT YOUR-TAGS\<newline>''
                        @ lit ''Flow '' @ flow_name @ lit '''s latest run has run-id *''
                        @ ident r @ lit ''* under namespace '' @ percent_s user_namespace)),
                     w1))))"

definition is_prod_token :: "str option \<Rightarrow> bool" where
  "is_prod_token token =
     (case token of None \<Rightarrow> False | Some t \<Rightarrow> startswith t (lit ''production:''))"

definition forbidden :: error where
  "forbidden = CommandException (lit ''Modifying a scheduled run's tags is currently not allowed.'')"

text \<open>The handler of \<open>MetaflowNamespaceMismatch\<close> in the second \<open>try\<close> of the resolver.\<close>

definition mismatch_handler ::
  "client \<Rightarrow> str \<Rightarrow> str option \<Rightarrow> world \<Rightarrow> (error + run) \<times> world" where
  "mismatch_handler c run_name user_namespace w =
     (case Run c run_name (namespace None w) of
        (Inl e, w1) \<Rightarrow> (Inl e, w1)
      | (Inr metaflow_client, w1) \<Rightarrow>
          (let run_tags = tags metaflow_client in
           if list_ex (\<lambda>tag. is_prod_token (Some tag)) run_tags then (Inl forbidden, w1)
           else
             (let msg = lit ''Run *'' @ run_name @ lit ''* does not belong to ''
                        @ lit ''namespace *'' @ percent_s user_namespace @ lit ''*.\<newline>'';
                  user_tags = filter (\<lambda>tag. startswith tag (lit ''user:'')) run_tags;
                  msg' = (if user_tags \<noteq> [] then
                            msg @ lit ''You can choose any of the following tags associated with *''
                            @ run_name @ lit ''* '' @ lit ''to use with option *--namespace*\<newline>''
                            @ join (lit ''\<newline>'')
                                (map (\<lambda>tag. tab @ lit ''*'' @ tag @ lit ''*'') user_tags)
                          else msg)
              in (Inl (CommandException msg'), w1))))"

definition obtain_metaflow_run_client ::
  "client \<Rightarrow> str \<Rightarrow> str option \<Rightarrow> str option \<Rightarrow> world \<Rightarrow> (error + run) \<times> world" where
  "obtain_metaflow_run_client c flow_name run_id user_namespace w =
     (if is_prod_token user_namespace then (Inl forbidden, w)
      else
        (case Flow c flow_name (namespace user_namespace w) of
           (Inl MetaflowNotFound, w1) \<Rightarrow>
             (Inl (CommandException
                (lit ''Flow *'' @ flow_name @ lit ''* does not exist '' @ lit ''in any namespace.\<newline>''
                 @ lit ''Please run the flow before tagging.'')), w1)
         | (Inl MetaflowNamespaceMismatch, w1) \<Rightarrow>
             (Inl (CommandException
                (lit ''Flow *'' @ flow_name @ lit ''* does not belong to ''
                 @ lit ''namespace *'' @ percent_s user_namespace @ lit ''*.\<newline>''
                 @ lit ''Check typos if you used option --namespace.'')), w1)
         | (Inl e, w1) \<Rightarrow> (Inl e, w1)
         | (Inr _, w1) \<Rightarrow>
             (case check_run_id c user_namespace flow_name run_id w1 of
                (Inl e, w2) \<Rightarrow> (Inl e, w2)
              | (Inr _, w2) \<Rightarrow>
                  (let run_name = flow_name @ lit ''/'' @ percent_s run_id in
                   case Run c run_name (namespace user_namespace w2) of
                     (Inl MetaflowNotFound, w3) \<Rightarrow>
                       (Inl (CommandException
                          (lit ''Run *'' @ run_name @ lit ''* does not exist ''
                           @ lit ''in any namespace.\<newline>Please check your --run-id.'')), w3)
                   | (Inl MetaflowNamespaceMismatch, w3) \<Rightarrow>
                       mismatch_handler c run_name user_namespace w3
                   | (Inl e, w3) \<Rightarrow> (Inl e, w3)
                   | (Inr metaflow_client, w3) \<Rightarrow> (Inr metaflow_client, w3)))))"

definition list_runs :: "client \<Rightarrow> str \<Rightarrow> str option \<Rightarrow> world \<Rightarrow> (error + run list) \<times> world" where
  "list_runs c flow_name user_namespace w =
     (case Flow c flow_name (namespace user_namespace w) of
        (Inl e, w1) \<Rightarrow> (Inl e, w1)
      | (Inr metaflow_client, w1) \<Rightarrow>
          (Inr (runs metaflow_client), w1\<lparr>calls := calls w1 @ [RunsCall]\<rparr>))"

text \<open>The loop over the runs in \<open>tag_list\<close>, on the pair of accumulators.\<close>

fun collect :: "run list \<Rightarrow> str list \<times> str list \<Rightarrow> str list \<times> str list" where
  "collect [] acc = acc"
| "collect (r # rs) (system_tags', customized_tags) =
     collect rs (union system_tags' (system_tags r),
                 union customized_tags (difference (tags r) (system_tags r)))"

definition usage_none :: error where
  "usage_none = CommandException
     (lit ''Please use one of the options --run-id / --all / --my-runs.\<newline>''
      @ lit ''You can run the flow with commands 'tag list --help' ''
      @ lit ''to check the meaning of the three options.'')"

definition usage_both :: error where
  "usage_both = CommandException
     (lit ''Option --all cannot be used together with --my-runs.\<newline>''
      @ lit ''You can run the flow with commands 'tag list --help' ''
      @ lit ''to check the meaning of the two options.'')"

definition tag_list ::
  "client \<Rightarrow> str \<Rightarrow> str option \<Rightarrow> bool \<Rightarrow> bool \<Rightarrow> bool \<Rightarrow> world \<Rightarrow> (error + unit) \<times> world" where
  "tag_list c flow_name run_id hide_system_tags list_all' my_runs w =
     (if run_id = None \<and> \<not> list_all' \<and> \<not> my_runs then (Inl usage_none, w)
      else if list_all' \<and> my_runs then (Inl usage_both, w)
      else
        (case
           (if list_all' \<or> my_runs then
              (let (user_namespace, w1) =
                     (if my_runs
                        then (Some (resolve_identity c), w\<lparr>calls := calls w @ [ResolveIdentityCall]\<rparr>)
                        else (None, w))
               in case list_runs c flow_name user_namespace w1 of
                    (Inl e, w2) \<Rightarrow> (Inl e, w2)
                  | (Inr rs, w2) \<Rightarrow> (Inr (collect rs ([], [])), w2))
            else
              (case obtain_metaflow_run_client c flow_name run_id None w of
                 (Inl e, w2) \<Rightarrow> (Inl e, w2)
               | (Inr metaflow_run_client, w2) \<Rightarrow>
                   (Inr (system_tags metaflow_run_client,
                         difference (tags metaflow_run_client)
                           (system_tags metaflow_run_client)), w2)))
         of
           (Inl e, w3) \<Rightarrow> (Inl e, w3)
         | (Inr (system_tags', customized_tags), w3) \<Rightarrow>
             (if hide_system_tags
                then (Inr (), echo (format_tags [] customized_tags) w3)
                else (Inr (), echo (format_tags system_tags' customized_tags) w3))))"


section \<open>airflow\_cli\<close>

text \<open>
  \<open>current\<close>, the decorators, the package builder, the datastore, the compiler, the
  object store and the file system are collaborators outside the two files.  Each is a
  parameter that says, for the arguments it is called with, whether the call raises and
  what it returns.  \<open>S3\<close> is the call \<^verbatim>\<open>S3()\<close> that opens the client; a failed \<open>s3_put\<close>
  stores nothing.  \<open>file_open path\<close> is \<^verbatim>\<open>open(path, "w")\<close>, which empties the file when it
  succeeds.  \<open>file_write path text\<close> is \<^verbatim>\<open>f.write(text)\<close> with the close at the end of the
  \<^verbatim>\<open>with\<close> block: \<open>None\<close> when the text was written, or the exception raised together with
  what the file is left holding.
\<close>

datatype aerror =
    MetaflowException str
  | Raised str

record current =
  current_project_name :: "str option"
  current_project_flow_name :: str
  current_flow_name :: str

text \<open>The arguments \<open>make_flow\<close> gives to \<open>Airflow(...)\<close>, those that are not fields of \<open>obj\<close>.\<close>

record airflow_args =
  arg_name :: str
  arg_package_sha :: str
  arg_package_url :: str
  arg_tags :: "str list"
  arg_namespace :: "str option"
  arg_max_workers :: int
  arg_worker_pool :: "str option"
  arg_username :: str
  arg_is_project :: bool
  arg_file_path :: "str option"
  arg_set_active :: bool

record airflow_env =
  cur :: current
  attach_decorators :: "aerror option"
  init_step_decorators :: "aerror option"
  MetaflowPackage :: "aerror + str"
  save_data :: "str \<Rightarrow> aerror + (str \<times> str)"
  get_username :: str
  Airflow :: "airflow_args \<Rightarrow> aerror option"
  compile :: "airflow_args \<Rightarrow> aerror + str"
  S3 :: "aerror option"
  s3_put :: "str \<Rightarrow> str \<Rightarrow> aerror option"
  file_open :: "str \<Rightarrow> aerror option"
  file_write :: "str \<Rightarrow> str \<Rightarrow> (aerror \<times> str) option"

datatype acall =
    AttachDecorators
  | InitStepDecorators
  | BuildPackage
  | SaveData str
  | NewAirflow airflow_args
  | Compile
  | EchoAlways str
  | NewS3
  | S3Put str str
  | Open str
  | Write str str

text \<open>
  The state of the export command: the calls made to the collaborators so far, what
  was printed, and the contents of the object store and of the local files.
\<close>

record aworld =
  acalls :: "acall list"
  stdout :: "str list"
  s3 :: "str \<Rightarrow> str option"
  files :: "str \<Rightarrow> str option"

definition called :: "acall \<Rightarrow> aworld \<Rightarrow> aworld" where
  "called e w = w\<lparr>acalls := acalls w @ [e]\<rparr>"

text \<open>
  Modelled from the spec: \<open>obj.echo_always\<close>, a method of the object the command-line
  framework passes in, is not in the two files.  The spec says of the call in \<open>create\<close>:
  "no target path: print to stdout".
\<close>

definition echo_always :: "str \<Rightarrow> aworld \<Rightarrow> aworld" where
  "echo_always text w = (called (EchoAlways text) w)\<lparr>stdout := stdout w @ [text]\<rparr>"

text \<open>Truth value of an optional string: \<open>None\<close> and the empty string are false.\<close>

definition truthy :: "str option \<Rightarrow> bool" where
  "truthy v = (case v of None \<Rightarrow> False | Some s \<Rightarrow> s \<noteq> [])"

text \<open>
  \<open>VALID_NAME.search(name)\<close> for the pattern \<^verbatim>\<open>[^a-zA-Z0-9_\-\.]\<close>: some character of
  the name is none of the listed ones.
\<close>

definition listed :: "nat \<Rightarrow> bool" where
  "listed ch =
     ((of_char CHR ''a'' \<le> ch \<and> ch \<le> of_char CHR ''z'')
      \<or> (of_char CHR ''A'' \<le> ch \<and> ch \<le> of_char CHR ''Z'')
      \<or> (of_char CHR ''0'' \<le> ch \<and> ch \<le> of_char CHR ''9'')
      \<or> ch = of_char CHR ''_'' \<or> ch = of_char CHR ''-'' \<or> ch = of_char CHR ''.'')"

definition VALID_NAME_search :: "str \<Rightarrow> bool" where
  "VALID_NAME_search name = list_ex (\<lambda>ch. \<not> listed ch) name"

definition not_supported :: aerror where
  "not_supported =
     MetaflowException (lit ''--name is not supported for @projects. '' @ lit ''Use --branch instead.'')"

definition resolve_dag_name :: "current \<Rightarrow> str option \<Rightarrow> aerror + (str \<times> bool)" where
  "resolve_dag_name c name =
     (let project = current_project_name c in
      if truthy project then
        (if truthy name then Inl not_supported
         else Inr (current_project_flow_name c, True))
      else
        (if truthy name \<and> VALID_NAME_search (percent_s name)
           then Inl (MetaflowException
                  (lit ''Name '' @ [39] @ percent_s name @ [39] @ lit '' contains invalid characters.''))
         else Inr (if truthy name then percent_s name else current_flow_name c, False)))"

definition make_flow ::
  "airflow_env \<Rightarrow> str option \<Rightarrow> str list \<Rightarrow> str option \<Rightarrow> int \<Rightarrow> bool \<Rightarrow> str option
     \<Rightarrow> str option \<Rightarrow> bool \<Rightarrow> aworld \<Rightarrow> (aerror + airflow_args) \<times> aworld" where
  "make_flow env dag_name tags' namespace' max_workers is_project file_path worker_pool set_active w =
     (let w1 = called AttachDecorators w in
      case attach_decorators env of Some e \<Rightarrow> (Inl e, w1) | None \<Rightarrow>
     (let w2 = called InitStepDecorators w1 in
      case init_step_decorators env of Some e \<Rightarrow> (Inl e, w2) | None \<Rightarrow>
     (let w3 = called BuildPackage w2 in
      case MetaflowPackage env of Inl e \<Rightarrow> (Inl e, w3) | Inr blob \<Rightarrow>
     (let w4 = called (SaveData blob) w3 in
      case save_data env blob of Inl e \<Rightarrow> (Inl e, w4) | Inr (package_url, package_sha) \<Rightarrow>
     (case resolve_dag_name (cur env) dag_name of Inl e \<Rightarrow> (Inl e, w4) | Inr (flow_name, is_project') \<Rightarrow>
     (let args = \<lparr>arg_name = flow_name, arg_package_sha = package_sha,
                   arg_package_url = package_url, arg_tags = tags',
                   arg_namespace = namespace', arg_max_workers = max_workers,
                   arg_worker_pool = worker_pool, arg_username = get_username env,
                   arg_is_project = is_project', arg_file_path = file_path,
                   arg_set_active = set_active\<rparr>;
          w5 = called (NewAirflow args) w4 in
      case Airflow env args of Some e \<Rightarrow> (Inl e, w5) | None \<Rightarrow> (Inr args, w5)))))))"

definition create ::
  "airflow_env \<Rightarrow> str option \<Rightarrow> str list \<Rightarrow> str option \<Rightarrow> bool \<Rightarrow> str option \<Rightarrow> int
     \<Rightarrow> str option \<Rightarrow> aworld \<Rightarrow> (aerror + unit) \<times> aworld" where
  "create env file_path tags' name set_active user_namespace max_workers worker_pool w =
     (case make_flow env name tags' user_namespace max_workers False file_path worker_pool
             set_active w of
        (Inl e, w1) \<Rightarrow> (Inl e, w1)
      | (Inr flow', w1) \<Rightarrow>
          (let w2 = called Compile w1 in
           case compile env flow' of
             Inl e \<Rightarrow> (Inl e, w2)
           | Inr compiled_dag_file \<Rightarrow>
               (case file_path of
                  None \<Rightarrow> (Inr (), echo_always compiled_dag_file w2)
                | Some path \<Rightarrow>
                    (if startswith path (lit ''s3://'') then
                       (let w3 = called NewS3 w2 in
                        case S3 env of
                          Some e \<Rightarrow> (Inl e, w3)
                        | None \<Rightarrow>
                            (let w4 = called (S3Put path compiled_dag_file) w3 in
                             case s3_put env path compiled_dag_file of
                               Some e \<Rightarrow> (Inl e, w4)
                             | None \<Rightarrow>
                                 (Inr (), w4\<lparr>s3 := (s3 w4)(path \<mapsto> compiled_dag_file)\<rparr>)))
                     else
                       (let w3 = called (Open path) w2 in
                        case file_open env path of
                          Some e \<Rightarrow> (Inl e, w3)
                        | None \<Rightarrow>
                            (let w4 = (called (Write path compiled_dag_file) w3)
                                        \<lparr>files := (files w3)(path \<mapsto> [])\<rparr> in
                             case file_write env path compiled_dag_file of
                               Some (e, left) \<Rightarrow>
                                 (Inl e, w4\<lparr>files := (files w4)(path \<mapsto> left)\<rparr>)
                             | None \<Rightarrow>
                                 (Inr (),
                                  w4\<lparr>files := (files w4)(path \<mapsto> compiled_dag_file)\<rparr>)))))))"


section \<open>Concrete inputs\<close>

text \<open>
  A client over three runs of flow \<open>F\<close>, newest first.  As in the Metaflow client, a run
  is in a namespace when the namespace is one of its tags, and a flow is in a namespace
  when one of its runs is; the unrestricted namespace \<open>None\<close> contains everything.
\<close>

definition run7 :: run where
  "run7 = \<lparr>ident = lit ''7'',
            tags = [lit ''user:bob'', lit ''stage:dev'', lit ''runtime:dev''],
            system_tags = [lit ''runtime:dev'']\<rparr>"

definition run8 :: run where
  "run8 = \<lparr>ident = lit ''8'',
            tags = [lit ''production:token-1'', lit ''user:sched'', lit ''runtime:dev''],
            system_tags = [lit ''runtime:dev'']\<rparr>"

definition run9 :: run where
  "run9 = \<lparr>ident = lit ''9'', tags = [lit ''user:alice''], system_tags = []\<rparr>"

definition in_namespace :: "str option \<Rightarrow> run \<Rightarrow> bool" where
  "in_namespace ns r = (case ns of None \<Rightarrow> True | Some n \<Rightarrow> n \<in> set (tags r))"

definition demo_client :: client where
  "demo_client =
     \<lparr>flow_lookup = (\<lambda>ns pathspec.
          if pathspec = lit ''F'' then
            (case filter (in_namespace ns) [run9, run8, run7] of
               [] \<Rightarrow> NamespaceMismatch
             | r # rs \<Rightarrow> Found \<lparr>latest_run = Some r, runs = r # rs\<rparr>)
          else NotFound),
      run_lookup = (\<lambda>ns pathspec.
          (case filter (\<lambda>r. lit ''F/'' @ ident r = pathspec) [run9, run8, run7] of
             [] \<Rightarrow> NotFound
           | r # rs \<Rightarrow> if in_namespace ns r then Found r else NamespaceMismatch)),
      resolve_identity = lit ''user:alice''\<rparr>"

definition w0 :: world where
  "w0 = \<lparr>current_namespace = Some (lit ''user:alice''), calls = [], echoed = []\<rparr>"

text \<open>
  An export environment in which every collaborator returns, with and without a
  project, and a state in which the local file \<open>dag.py\<close> already has content.
\<close>

definition plain_env :: airflow_env where
  "plain_env =
     \<lparr>cur = \<lparr>current_project_name = None, current_project_flow_name = [],
              current_flow_name = lit ''F''\<rparr>,
      attach_decorators = None,
      init_step_decorators = None,
      MetaflowPackage = Inr (lit ''blob''),
      save_data = (\<lambda>blob. Inr (lit ''s3://bucket/pkg'', lit ''sha'')),
      get_username = lit ''alice'',
      Airflow = (\<lambda>args. None),
      compile = (\<lambda>args. Inr (lit ''dag '' @ arg_name args)),
      S3 = None,
      s3_put = (\<lambda>path text. None),
      file_open = (\<lambda>path. None),
      file_write = (\<lambda>path text. None)\<rparr>"

definition project_env :: airflow_env where
  "project_env =
     plain_env\<lparr>cur := \<lparr>current_project_name = Some (lit ''proj''),
                          current_project_flow_name = lit ''proj.user.alice.F'',
                          current_flow_name = lit ''F''\<rparr>\<rparr>"

definition aw0 :: aworld where
  "aw0 = \<lparr>acalls = [], stdout = [], s3 = (\<lambda>path. None),
           files = (\<lambda>path. if path = lit ''dag.py'' then Some (lit ''old'') else None)\<rparr>"


section \<open>The table of tags: lines and rows\<close>

lemma length_zip_longest: "length (zip_longest a b) = max (length a) (length b)"
  by (simp add: zip_longest_def Let_def)

lemma nth_zip_longest:
  assumes "i < max (length a) (length b)"
  shows "zip_longest a b ! i =
           (if i < length a then Some (a ! i) else None,
            if i < length b then Some (b ! i) else None)"
  using assms by (auto simp: zip_longest_def Let_def nth_append)

lemma length_lines: "length (lines S U) = max (length S) (length U) + 2"
  by (simp add: lines_def Let_def length_zip_longest)

lemma split_no_sep: "c \<notin> set l \<Longrightarrow> split c l = [l]"
  by (induction l) auto

lemma split_append_sep: "c \<notin> set l \<Longrightarrow> split c (l @ c # rest) = l # split c rest"
  by (induction l) auto

lemma split_join:
  "ls \<noteq> [] \<Longrightarrow> \<forall>l\<in>set ls. c \<notin> set l \<Longrightarrow> split c (join [c] ls) = ls"
proof (induction "[c]" ls rule: join.induct)
  case 1
  then show ?case by simp
next
  case (2 x)
  then show ?case by (simp add: split_no_sep)
next
  case (3 x y ys)
  then show ?case by (simp add: split_append_sep)
qed

lemma newline_lit: "lit ''\<newline>'' = [10]"
  by (simp add: lit_def)

lemma header_no_newline: "10 \<notin> set (fst header)" "10 \<notin> set (snd header)"
  by (simp_all add: header_def lit_def)

lemma formatter_newline_iff:
  "10 \<in> set (formatter w a b) \<longleftrightarrow> 10 \<in> set a \<or> 10 \<in> set b"
  by (auto simp: formatter_def format_field_def lit_def)

lemma zip_longest_elems:
  assumes "(x, y) \<in> set (zip_longest a b)"
  shows "(x = None \<or> (\<exists>s\<in>set a. x = Some s)) \<and> (y = None \<or> (\<exists>s\<in>set b. y = Some s))"
proof -
  from assms obtain i where i: "i < length (zip_longest a b)" "zip_longest a b ! i = (x, y)"
    by (auto simp: in_set_conv_nth)
  then have "i < max (length a) (length b)" by (simp add: length_zip_longest)
  from nth_zip_longest[OF this] i(2) show ?thesis by (auto split: if_splits)
qed

lemma lines_no_newline:
  assumes "\<forall>t\<in>set S \<union> set U. 10 \<notin> set t" and "l \<in> set (lines S U)"
  shows "10 \<notin> set l"
proof -
  have rows: "10 \<notin> set (row w p)" if "p \<in> set (zip_longest (sort S) (sort U))" for w p
  proof -
    obtain x y where p: "p = (x, y)" by (cases p)
    from zip_longest_elems[of x y "sort S" "sort U"] that p
    have "(x = None \<or> (\<exists>s\<in>set S. x = Some s)) \<and> (y = None \<or> (\<exists>s\<in>set U. y = Some s))"
      by simp
    with assms(1) show ?thesis
      unfolding p row_def by (auto simp: formatter_newline_iff)
  qed
  from assms(2) show ?thesis
    unfolding lines_def Let_def
    by (auto simp: header_no_newline rows formatter_newline_iff)
qed

lemma split_format_tags:
  assumes "\<forall>t\<in>set S \<union> set U. 10 \<notin> set t"
  shows "split 10 (format_tags S U) = lines S U"
proof -
  have "lines S U \<noteq> []" using length_lines[of S U] by auto
  moreover have "\<forall>l\<in>set (lines S U). 10 \<notin> set l"
    using lines_no_newline[OF assms] by blast
  ultimately show ?thesis
    unfolding format_tags_def newline_lit by (rule split_join)
qed

lemma stag_width_Max: "stag_width S = Max (insert (length (fst header)) (length ` set S))"
  by (simp add: stag_width_def Un_commute)

lemma ctag_width_Max: "ctag_width U = Max (insert (length (snd header)) (length ` set U))"
  by (simp add: ctag_width_def Un_commute)

lemma stag_width_ge: "t \<in> set S \<Longrightarrow> length t \<le> stag_width S"
  by (simp add: stag_width_Max)

lemma nth_data_row:
  assumes "i < max (length S) (length U)"
  shows "lines S U ! (i + 2) = row (stag_width S) (zip_longest (sort S) (sort U) ! i)"
  using assms by (simp add: lines_def Let_def length_zip_longest)

text \<open>
  C5, as amended.  The text that \<open>format_tags\<close> returns is the join of its rows with the
  newline (code point 10), and \<open>split 10\<close> reads its lines.  For tag sets \<open>S\<close> and \<open>U\<close>
  (lists without duplicates) whose tags contain no newline, the text has exactly
  \<open>max |S| |U| + 2\<close> lines, whether or not the two sets have the same size.  The function
  is total: no size mismatch makes it fail.
\<close>

theorem format_tags_line_count:
  assumes "distinct S" and "distinct U" and "\<forall>t\<in>set S \<union> set U. 10 \<notin> set t"
  shows "length (split 10 (format_tags S U)) = max (card (set S)) (card (set U)) + 2"
  using assms by (simp add: split_format_tags length_lines distinct_card)

theorem format_tags_line_count_witness:
  "length (split 10 (format_tags [lit ''b'', lit ''a''] [lit ''c'', lit ''d'', lit ''e''])) = 5"
  using format_tags_line_count[of "[lit ''b'', lit ''a'']" "[lit ''c'', lit ''d'', lit ''e'']"]
  by (simp add: lit_def)

text \<open>
  The one system tag \<open>a\<newline>b\<close>, with the newline inside, and no customized tag: the
  sizes differ and the text has four lines, not three.
\<close>

theorem newline_in_tag_counterexample:
  "distinct [lit ''a\<newline>b''] \<and> card (set [lit ''a\<newline>b'']) \<noteq> card (set ([] :: str list))
   \<and> length (split 10 (format_tags [lit ''a\<newline>b''] []))
     \<noteq> max (card (set [lit ''a\<newline>b''])) (card (set ([] :: str list))) + 2"
  by (simp add: format_tags_def lines_def Let_def row_def formatter_def format_field_def
        zip_longest_def stag_width_def ctag_width_def header_def lit_def)

lemma lines_rows:
  assumes "i < max (length S) (length U)"
  shows "lines S U ! (i + 2)
           = (if i < length S then sort S ! i else [])
             @ replicate (stag_width S - length (if i < length S then sort S ! i else []))
                 (of_char CHR '' '')
             @ lit ''  '' @ (if i < length U then sort U ! i else [])"
proof -
  have "i < max (length (sort S)) (length (sort U))" using assms by simp
  from nth_zip_longest[OF this] nth_data_row[OF assms]
  show ?thesis by (simp add: row_def formatter_def format_field_def)
qed

lemma lines_header:
  "lines S U ! 0
     = fst header @ replicate (stag_width S + 2 - length (fst header)) (of_char CHR '' '')
       @ lit ''  '' @ snd header"
  by (simp add: lines_def Let_def formatter_def format_field_def)

lemma lines_separator:
  "lines S U ! 1
     = replicate (stag_width S) (of_char CHR ''-'') @ lit ''  ''
       @ replicate (ctag_width U) (of_char CHR ''-'')"
  by (simp add: lines_def Let_def formatter_def format_field_def)

lemma sorted_tag_fits: "length (if i < length S then sort S ! i else []) \<le> stag_width S"
proof (cases "i < length S")
  case True
  then have "sort S ! i \<in> set (sort S)" by (simp del: set_sort)
  then have "sort S ! i \<in> set S" by simp
  with True show ?thesis by (simp add: stag_width_ge)
next
  case False
  then show ?thesis by simp
qed

text \<open>
  C6, as amended.  The tags contain no newline, so that the lines of the text that
  \<open>format_tags\<close> returns are its rows.  Line \<open>i + 2\<close> of the text, data row \<open>i\<close>, holds the
  \<open>i\<close>-th system tag in ascending order, filled with spaces up to the width of the system
  column, two spaces, and the \<open>i\<close>-th customized tag in ascending order as it is; a tag
  that does not exist is the empty string.  No tag is cut, since none is longer than
  the width of its column.  The width of the system column is the longest of the
  system tags and its header string; the header line fills that column two further.
  The width of the customized column, the longest of the customized tags and its
  header string, is the number of dashes under it and nothing else: the customized
  column is never filled.
\<close>

theorem format_tags_rows:
  assumes "\<forall>t\<in>set S \<union> set U. 10 \<notin> set t" and "i < max (length S) (length U)"
  shows "split 10 (format_tags S U) ! (i + 2)
           = (if i < length S then sort S ! i else [])
             @ replicate (stag_width S - length (if i < length S then sort S ! i else []))
                 (of_char CHR '' '')
             @ lit ''  '' @ (if i < length U then sort U ! i else [])
         \<and> length (if i < length S then sort S ! i else []) \<le> stag_width S
         \<and> stag_width S = Max (insert (length (fst header)) (length ` set S))
         \<and> ctag_width U = Max (insert (length (snd header)) (length ` set U))
         \<and> split 10 (format_tags S U) ! 0
             = fst header @ replicate (stag_width S + 2 - length (fst header)) (of_char CHR '' '')
               @ lit ''  '' @ snd header
         \<and> split 10 (format_tags S U) ! 1
             = replicate (stag_width S) (of_char CHR ''-'') @ lit ''  ''
               @ replicate (ctag_width U) (of_char CHR ''-'')"
  unfolding split_format_tags[OF assms(1)]
  using lines_rows[OF assms(2)] sorted_tag_fits[of i S] stag_width_Max[of S] ctag_width_Max[of U]
        lines_header[of S U] lines_separator[of S U]
  by blast

text \<open>
  The table of \<open>{b, a}\<close> and \<open>{c}\<close>: the fourth line of the text, data row 1, is \<open>b\<close> filled to
  25 and two spaces.
\<close>

theorem format_tags_rows_witness:
  "split 10 (format_tags [lit ''b'', lit ''a''] [lit ''c'']) ! (1 + 2)
   = lit ''b                          ''"
  using format_tags_rows[of "[lit ''b'', lit ''a'']" "[lit ''c'']" 1]
  by (simp add: lit_def stag_width_def header_def)

text \<open>
  With no system tag and the customized tag \<open>a\<close>, the third line of the text ends with
  \<open>a\<close>: it is not the row in which the customized column is filled to its width.
\<close>

theorem second_column_padded_counterexample:
  "split 10 (format_tags [] [lit ''a'']) ! 2
   \<noteq> format_field (stag_width []) [] @ lit ''  '' @ format_field (ctag_width [lit ''a'']) (lit ''a'')"
  by (simp add: format_tags_def lines_def Let_def row_def formatter_def format_field_def
        zip_longest_def stag_width_def ctag_width_def header_def lit_def)

text \<open>
  A newline inside a tag breaks its row over two lines of the text, which is why the
  rows are read off the lines for tags without a newline only.
\<close>

lemma newline_breaks_row:
  "split 10 (format_tags [lit ''a\<newline>b''] []) ! 2 = lit ''a''
   \<and> lines [lit ''a\<newline>b''] [] ! 2 \<noteq> lit ''a''"
  by (simp add: format_tags_def lines_def Let_def row_def formatter_def format_field_def
        zip_longest_def stag_width_def ctag_width_def header_def lit_def)


section \<open>The resolver\<close>

text \<open>What the concrete client answers.\<close>

lemma demo_flow_alice:
  "flow_lookup demo_client (Some (lit ''user:alice'')) (lit ''F'')
   = Found \<lparr>latest_run = Some run9, runs = [run9]\<rparr>"
  by (simp add: demo_client_def in_namespace_def run7_def run8_def run9_def lit_def)

lemma demo_flow_None:
  "flow_lookup demo_client None (lit ''F'')
   = Found \<lparr>latest_run = Some run9, runs = [run9, run8, run7]\<rparr>"
  by (simp add: demo_client_def in_namespace_def)

lemma demo_run8_alice:
  "run_lookup demo_client (Some (lit ''user:alice'')) (lit ''F'' @ lit ''/'' @ lit ''8'') = NamespaceMismatch"
  by (simp add: demo_client_def in_namespace_def run7_def run8_def run9_def lit_def)

lemma demo_run7_alice:
  "run_lookup demo_client (Some (lit ''user:alice'')) (lit ''F'' @ lit ''/'' @ lit ''7'') = NamespaceMismatch"
  by (simp add: demo_client_def in_namespace_def run7_def run8_def run9_def lit_def)

lemma demo_run8_None:
  "run_lookup demo_client None (lit ''F'' @ lit ''/'' @ lit ''8'') = Found run8"
  by (simp add: demo_client_def in_namespace_def run7_def run8_def run9_def lit_def)

lemma demo_run7_None:
  "run_lookup demo_client None (lit ''F'' @ lit ''/'' @ lit ''7'') = Found run7"
  by (simp add: demo_client_def in_namespace_def run7_def run8_def run9_def lit_def)

lemma Flow_Found:
  "flow_lookup c (current_namespace w) p = Found f \<Longrightarrow>
   Flow c p w = (Inr f, w\<lparr>calls := calls w @ [FlowCall p]\<rparr>)"
  by (simp add: Flow_def)

lemma Run_Found:
  "run_lookup c (current_namespace w) p = Found r \<Longrightarrow>
   Run c p w = (Inr r, w\<lparr>calls := calls w @ [RunCall p]\<rparr>)"
  by (simp add: Run_def)

lemma Run_Mismatch:
  "run_lookup c (current_namespace w) p = NamespaceMismatch \<Longrightarrow>
   Run c p w = (Inl MetaflowNamespaceMismatch, w\<lparr>calls := calls w @ [RunCall p]\<rparr>)"
  by (simp add: Run_def)

lemma check_run_id_Some: "check_run_id c ns fn (Some rid) w = (Inr (), w)"
  by (simp add: check_run_id_def)

text \<open>
  C1.  The flow is found under the requested namespace, the run is not in that
  namespace, and the unrestricted lookup finds it with tags \<open>tags r\<close>.  If one of the
  tags starts with \<open>production:\<close>, the resolver raises the error of a forbidden mutation,
  whatever the requested namespace (one that starts with \<open>production:\<close> raises it at the
  first step).  Otherwise it raises the namespace mismatch, whose message names the
  run and the namespace and then lists, one per line, exactly the tags of the run that
  start with \<open>user:\<close>, in the order of the tag set; without such a tag it lists nothing.
\<close>

theorem namespace_mismatch_branch:
  assumes flow: "flow_lookup c user_namespace flow_name = Found f"
      and mism: "run_lookup c user_namespace (flow_name @ lit ''/'' @ rid) = NamespaceMismatch"
      and unre: "run_lookup c None (flow_name @ lit ''/'' @ rid) = Found r"
  shows "fst (obtain_metaflow_run_client c flow_name (Some rid) user_namespace w) =
     (if list_ex (\<lambda>tag. startswith tag (lit ''production:'')) (tags r)
         \<or> is_prod_token user_namespace
      then Inl forbidden
      else Inl (CommandException
        (lit ''Run *'' @ flow_name @ lit ''/'' @ rid @ lit ''* does not belong to ''
         @ lit ''namespace *'' @ percent_s user_namespace @ lit ''*.\<newline>''
         @ (if filter (\<lambda>tag. startswith tag (lit ''user:'')) (tags r) = [] then []
            else lit ''You can choose any of the following tags associated with *''
                 @ flow_name @ lit ''/'' @ rid @ lit ''* ''
                 @ lit ''to use with option *--namespace*\<newline>''
                 @ join (lit ''\<newline>'')
                     (map (\<lambda>tag. tab @ lit ''*'' @ tag @ lit ''*'')
                        (filter (\<lambda>tag. startswith tag (lit ''user:'')) (tags r)))))))"
proof (cases "is_prod_token user_namespace")
  case True
  then show ?thesis by (simp add: obtain_metaflow_run_client_def)
next
  case False
  have 1: "Flow c flow_name (namespace user_namespace w)
           = (Inr f, (namespace user_namespace w)
                       \<lparr>calls := calls (namespace user_namespace w) @ [FlowCall flow_name]\<rparr>)"
    by (rule Flow_Found) (simp add: namespace_def flow)
  have 2: "Run c (flow_name @ lit ''/'' @ rid) (namespace user_namespace w')
           = (Inl MetaflowNamespaceMismatch,
              (namespace user_namespace w')
                \<lparr>calls := calls (namespace user_namespace w')
                           @ [RunCall (flow_name @ lit ''/'' @ rid)]\<rparr>)" for w'
    by (rule Run_Mismatch) (simp add: namespace_def mism)
  have 3: "Run c (flow_name @ lit ''/'' @ rid) (namespace None w')
           = (Inr r, (namespace None w')
                       \<lparr>calls := calls (namespace None w')
                                  @ [RunCall (flow_name @ lit ''/'' @ rid)]\<rparr>)" for w'
    by (rule Run_Found) (simp add: namespace_def unre)
  have prod: "is_prod_token (Some t) = startswith t (lit ''production:'')" for t
    by (simp add: is_prod_token_def)
  show ?thesis
    using False
    by (simp add: obtain_metaflow_run_client_def 1 check_run_id_Some percent_s_def 2
          mismatch_handler_def 3 prod Let_def)
qed

text \<open>Under \<open>user:alice\<close>, run 8 carries a production tag and run 7 is a run of \<open>user:bob\<close>.\<close>

theorem namespace_mismatch_branch_witness:
  "fst (obtain_metaflow_run_client demo_client (lit ''F'') (Some (lit ''8''))
          (Some (lit ''user:alice'')) w0) = Inl forbidden
   \<and> fst (obtain_metaflow_run_client demo_client (lit ''F'') (Some (lit ''7''))
          (Some (lit ''user:alice'')) w0)
     = Inl (CommandException
         (lit ''Run *F/7* does not belong to namespace *user:alice*.\<newline>''
          @ lit ''You can choose any of the following tags associated with *F/7* ''
          @ lit ''to use with option *--namespace*\<newline>'' @ tab @ lit ''*user:bob*''))"
  using namespace_mismatch_branch[OF demo_flow_alice demo_run8_alice demo_run8_None, of w0]
        namespace_mismatch_branch[OF demo_flow_alice demo_run7_alice demo_run7_None, of w0]
  by (simp add: run7_def run8_def startswith_def is_prod_token_def percent_s_def lit_def)

text \<open>
  C2.  A requested namespace that starts with \<open>production:\<close> makes the resolver raise
  the error of a forbidden mutation in the state it was called in: the current
  namespace is not set and no call to the client is made.
\<close>

theorem prod_namespace_fails_first:
  assumes "startswith ns (lit ''production:'')"
  shows "obtain_metaflow_run_client c flow_name run_id (Some ns) w = (Inl forbidden, w)"
  using assms by (simp add: obtain_metaflow_run_client_def is_prod_token_def)

theorem prod_namespace_fails_first_witness:
  "obtain_metaflow_run_client demo_client (lit ''F'') (Some (lit ''8''))
     (Some (lit ''production:x'')) w0 = (Inl forbidden, w0)"
  using prod_namespace_fails_first[of "lit ''production:x''" demo_client "lit ''F''"
          "Some (lit ''8'')" w0]
  by (simp add: startswith_def lit_def)

text \<open>
  C7.  Without a run id the resolver never returns a run: it always raises.  When the
  namespace passes the first step, the flow is found and has a latest run, the error
  is the request for a run id, whose message names the flow, the id of its latest run
  and the namespace; the client was asked for the flow twice and for no run.
\<close>

theorem absent_run_id_is_error:
  "(\<exists>e. fst (obtain_metaflow_run_client c flow_name None user_namespace w) = Inl e)
   \<and> (\<not> is_prod_token user_namespace \<and> flow_lookup c user_namespace flow_name = Found f
        \<and> latest_run f = Some r \<longrightarrow>
      obtain_metaflow_run_client c flow_name None user_namespace w
      = (Inl (CommandException
           (lit ''Please run with --run-id: tag add --run-id TEXT YOUR-TAGS\<newline>''
            @ lit ''Flow '' @ flow_name @ lit '''s latest run has run-id *'' @ ident r
            @ lit ''* under namespace '' @ percent_s user_namespace)),
         w\<lparr>current_namespace := user_namespace,
           calls := calls w @ [NamespaceCall user_namespace, FlowCall flow_name,
                               FlowCall flow_name]\<rparr>))"
proof
  show "\<exists>e. fst (obtain_metaflow_run_client c flow_name None user_namespace w) = Inl e"
    by (auto simp: obtain_metaflow_run_client_def Flow_def check_run_id_def namespace_def Let_def
          split: lookup.splits option.splits)
next
  show "\<not> is_prod_token user_namespace \<and> flow_lookup c user_namespace flow_name = Found f
        \<and> latest_run f = Some r \<longrightarrow>
      obtain_metaflow_run_client c flow_name None user_namespace w
      = (Inl (CommandException
           (lit ''Please run with --run-id: tag add --run-id TEXT YOUR-TAGS\<newline>''
            @ lit ''Flow '' @ flow_name @ lit '''s latest run has run-id *'' @ ident r
            @ lit ''* under namespace '' @ percent_s user_namespace)),
         w\<lparr>current_namespace := user_namespace,
           calls := calls w @ [NamespaceCall user_namespace, FlowCall flow_name,
                               FlowCall flow_name]\<rparr>)"
    by (simp add: obtain_metaflow_run_client_def Flow_def check_run_id_def namespace_def Let_def)
qed

text \<open>The latest run of \<open>F\<close> under \<open>user:alice\<close> is run 9.\<close>

theorem absent_run_id_is_error_witness:
  "obtain_metaflow_run_client demo_client (lit ''F'') None (Some (lit ''user:alice'')) w0
   = (Inl (CommandException
        (lit ''Please run with --run-id: tag add --run-id TEXT YOUR-TAGS\<newline>''
         @ lit ''Flow F's latest run has run-id *9* under namespace user:alice'')),
      w0\<lparr>calls := [NamespaceCall (Some (lit ''user:alice'')), FlowCall (lit ''F''),
                    FlowCall (lit ''F'')]\<rparr>)"
  using absent_run_id_is_error[of demo_client "lit ''F''" "Some (lit ''user:alice'')" w0
          "\<lparr>latest_run = Some run9, runs = [run9]\<rparr>" run9]
        demo_flow_alice
  by (simp add: is_prod_token_def startswith_def percent_s_def run9_def w0_def lit_def)


section \<open>tag list\<close>

text \<open>
  C3, as amended.  An invocation of \<open>tag list\<close> that chooses none of run id, \<open>--all\<close> and
  \<open>--my-runs\<close>, or that chooses both \<open>--all\<close> and \<open>--my-runs\<close>, raises a usage error in the
  state it was called in: no call to the client is made.
\<close>

theorem tag_list_usage:
  assumes "(run_id = None \<and> \<not> list_all' \<and> \<not> my_runs) \<or> (list_all' \<and> my_runs)"
  shows "tag_list c flow_name run_id hide_system_tags list_all' my_runs w
         = (Inl (if run_id = None \<and> \<not> list_all' \<and> \<not> my_runs then usage_none else usage_both),
            w)"
  using assms by (auto simp: tag_list_def)

theorem tag_list_usage_witness:
  "tag_list demo_client (lit ''F'') None False False False w0 = (Inl usage_none, w0)
   \<and> tag_list demo_client (lit ''F'') (Some (lit ''7'')) False True True w0 = (Inl usage_both, w0)"
  using tag_list_usage[of None False False demo_client "lit ''F''" False w0]
        tag_list_usage[of "Some (lit ''7'')" True True demo_client "lit ''F''" False w0]
  by simp

text \<open>
  With run id 7 and \<open>--all\<close>, two of the three are chosen; the command raises nothing,
  asks the client for the runs of the flow and prints the table.
\<close>

theorem run_id_with_all_counterexample:
  "fst (tag_list demo_client (lit ''F'') (Some (lit ''7'')) False True False w0) = Inr ()
   \<and> calls (snd (tag_list demo_client (lit ''F'') (Some (lit ''7'')) False True False w0))
     = [NamespaceCall None, FlowCall (lit ''F''), RunsCall]"
  by (simp add: tag_list_def list_runs_def Flow_def namespace_def demo_flow_None echo_def w0_def
        split: prod.splits)

text \<open>
  C9.  With \<open>--all\<close> and without \<open>--my-runs\<close>, \<open>tag list\<close> gives the same result and the
  same final state for any two values of the run id, \<open>None\<close> included.
\<close>

theorem tag_list_all_ignores_run_id:
  "tag_list c flow_name run_id hide_system_tags True False w
   = tag_list c flow_name run_id' hide_system_tags True False w"
  by (simp add: tag_list_def)

theorem tag_list_all_ignores_run_id_witness:
  "tag_list demo_client (lit ''F'') (Some (lit ''7'')) False True False w0
   = tag_list demo_client (lit ''F'') None False True False w0"
  using tag_list_all_ignores_run_id[of demo_client "lit ''F''" "Some (lit ''7'')" False w0 None]
  by simp

text \<open>
  C10.  \<open>is_prod_token(None)\<close> is false; a resolution under the namespace \<open>None\<close> always
  goes past the first step to the lookup of the flow; and \<open>tag list\<close> with a run id,
  which resolves under \<open>None\<close>, prints the table of a run that carries a production
  tag, once the unrestricted lookups find the flow and the run.
\<close>

theorem unrestricted_listing_reaches_production_run:
  "is_prod_token None = False
   \<and> (\<exists>cs. calls (snd (obtain_metaflow_run_client c flow_name run_id None w))
            = calls w @ NamespaceCall None # FlowCall flow_name # cs)
   \<and> (flow_lookup c None flow_name = Found f
        \<and> run_lookup c None (flow_name @ lit ''/'' @ rid) = Found r
        \<and> list_ex (\<lambda>tag. is_prod_token (Some tag)) (tags r) \<longrightarrow>
      tag_list c flow_name (Some rid) False False False w
      = (Inr (),
         \<lparr>current_namespace = None,
          calls = calls w @ [NamespaceCall None, FlowCall flow_name, NamespaceCall None,
                             RunCall (flow_name @ lit ''/'' @ rid)],
          echoed = echoed w
                   @ [format_tags (system_tags r) (difference (tags r) (system_tags r))]\<rparr>))"
proof (intro conjI)
  show "is_prod_token None = False" by (simp add: is_prod_token_def)
next
  show "\<exists>cs. calls (snd (obtain_metaflow_run_client c flow_name run_id None w))
            = calls w @ NamespaceCall None # FlowCall flow_name # cs"
    by (auto simp: obtain_metaflow_run_client_def is_prod_token_def Flow_def Run_def
          check_run_id_def mismatch_handler_def namespace_def Let_def
          split: lookup.splits option.splits)
next
  show "flow_lookup c None flow_name = Found f
        \<and> run_lookup c None (flow_name @ lit ''/'' @ rid) = Found r
        \<and> list_ex (\<lambda>tag. is_prod_token (Some tag)) (tags r) \<longrightarrow>
      tag_list c flow_name (Some rid) False False False w
      = (Inr (),
         \<lparr>current_namespace = None,
          calls = calls w @ [NamespaceCall None, FlowCall flow_name, NamespaceCall None,
                             RunCall (flow_name @ lit ''/'' @ rid)],
          echoed = echoed w
                   @ [format_tags (system_tags r) (difference (tags r) (system_tags r))]\<rparr>)"
    by (simp add: tag_list_def obtain_metaflow_run_client_def is_prod_token_def Flow_def Run_def
          check_run_id_def namespace_def Let_def percent_s_def echo_def)
qed

text \<open>Run 8 carries the tag \<open>production:token-1\<close>, and \<open>tag list --run-id 8\<close> prints its table.\<close>

theorem unrestricted_listing_reaches_production_run_witness:
  "list_ex (\<lambda>tag. is_prod_token (Some tag)) (tags run8)
   \<and> tag_list demo_client (lit ''F'') (Some (lit ''8'')) False False False w0
     = (Inr (),
        \<lparr>current_namespace = None,
         calls = [NamespaceCall None, FlowCall (lit ''F''), NamespaceCall None,
                  RunCall (lit ''F/8'')],
         echoed = [format_tags [lit ''runtime:dev'']
                     [lit ''production:token-1'', lit ''user:sched'']]\<rparr>)"
  using unrestricted_listing_reaches_production_run[of demo_client "lit ''F''" None w0
          "\<lparr>latest_run = Some run9, runs = [run9, run8, run7]\<rparr>" "lit ''8''" run8]
        demo_flow_None demo_run8_None
  by (simp add: run8_def is_prod_token_def startswith_def difference_def w0_def lit_def)


section \<open>airflow create\<close>

lemma make_flow_keeps:
  "stdout (snd (make_flow env dag_name tags' namespace' max_workers is_project file_path
                  worker_pool set_active w)) = stdout w
   \<and> s3 (snd (make_flow env dag_name tags' namespace' max_workers is_project file_path
                  worker_pool set_active w)) = s3 w
   \<and> files (snd (make_flow env dag_name tags' namespace' max_workers is_project file_path
                  worker_pool set_active w)) = files w"
  by (simp add: make_flow_def called_def Let_def split: option.splits sum.splits prod.splits)

text \<open>
  C4, as amended.  With a project (a non-empty project name) and a non-empty \<open>--name\<close>,
  and when the decorators, the package builder and the datastore return, the command
  fails with the error "not supported for @projects".  It fails after the package was
  built and saved to the datastore, and before the compiler is called or anything is
  written.
\<close>

theorem project_name_rejected_after_packaging:
  assumes "truthy (current_project_name (cur env))" and "truthy name"
      and "attach_decorators env = None" and "init_step_decorators env = None"
      and "MetaflowPackage env = Inr blob"
      and "save_data env blob = Inr (package_url, package_sha)"
  shows "create env file_path tags' name set_active user_namespace max_workers worker_pool w
         = (Inl not_supported,
            w\<lparr>acalls := acalls w @ [AttachDecorators, InitStepDecorators, BuildPackage,
                                     SaveData blob]\<rparr>)"
  using assms
  by (simp add: create_def make_flow_def resolve_dag_name_def called_def Let_def)

theorem project_name_rejected_after_packaging_witness:
  "create project_env None [] (Some (lit ''foo'')) False None 100 None aw0
   = (Inl not_supported,
      aw0\<lparr>acalls := [AttachDecorators, InitStepDecorators, BuildPackage,
                     SaveData (lit ''blob'')]\<rparr>)"
  using project_name_rejected_after_packaging[of project_env "Some (lit ''foo'')" "lit ''blob''"
          "lit ''s3://bucket/pkg''" "lit ''sha''" None "[]" False None 100 None aw0]
  by (simp add: project_env_def plain_env_def truthy_def aw0_def lit_def)

text \<open>
  In a project, \<open>airflow create --name foo\<close> fails with the error, and the calls made
  before it include the build of the package and its upload.
\<close>

theorem packaging_before_name_check_counterexample:
  "fst (create project_env None [] (Some (lit ''foo'')) False None 100 None aw0) = Inl not_supported
   \<and> acalls (snd (create project_env None [] (Some (lit ''foo'')) False None 100 None aw0))
     = [AttachDecorators, InitStepDecorators, BuildPackage, SaveData (lit ''blob'')]"
  by (simp add: create_def make_flow_def resolve_dag_name_def called_def Let_def
        project_env_def plain_env_def truthy_def aw0_def lit_def)

text \<open>
  C8.  After \<open>make_flow\<close> and \<open>compile\<close> have returned, the file path alone decides where
  the compiled text goes.  Without a path it is printed, and the object store and the
  files are untouched.  With a path that starts with \<open>s3://\<close> the object store is
  opened and the text is put under that path; nothing is printed and no file is
  touched.  With any other path the local file of that path is opened for writing;
  nothing is printed and the object store is untouched.  Once the file is open its
  former content is gone: it holds the compiled text when the write returns, and
  what the failed write left otherwise.
\<close>

theorem create_output_routing:
  assumes "fst (make_flow env name tags' user_namespace max_workers False file_path worker_pool
                  set_active w) = Inr fl"
      and "compile env fl = Inr dag"
  shows "(file_path = None \<longrightarrow>
            (let (res, w') = create env file_path tags' name set_active user_namespace max_workers
                               worker_pool w
             in res = Inr () \<and> stdout w' = stdout w @ [dag] \<and> s3 w' = s3 w \<and> files w' = files w
                \<and> last (acalls w') = EchoAlways dag))
       \<and> (\<forall>path. file_path = Some path \<and> startswith path (lit ''s3://'') \<longrightarrow>
            (let (res, w') = create env file_path tags' name set_active user_namespace max_workers
                               worker_pool w
             in stdout w' = stdout w \<and> files w' = files w
                \<and> last (acalls w') = (if S3 env = None then S3Put path dag else NewS3)
                \<and> (S3 env = None \<and> s3_put env path dag = None \<longrightarrow>
                     res = Inr () \<and> s3 w' = (s3 w)(path \<mapsto> dag))))
       \<and> (\<forall>path. file_path = Some path \<and> \<not> startswith path (lit ''s3://'') \<longrightarrow>
            (let (res, w') = create env file_path tags' name set_active user_namespace max_workers
                               worker_pool w
             in stdout w' = stdout w \<and> s3 w' = s3 w
                \<and> last (acalls w') = (if file_open env path = None then Write path dag
                                       else Open path)
                \<and> (file_open env path = None \<longrightarrow>
                     files w' = (files w)(path \<mapsto>
                                  (case file_write env path dag of
                                     None \<Rightarrow> dag | Some (e, left) \<Rightarrow> left)))
                \<and> (file_open env path = None \<and> file_write env path dag = None \<longrightarrow>
                     res = Inr () \<and> files w' = (files w)(path \<mapsto> dag))))"
proof -
  obtain w1 where mf: "make_flow env name tags' user_namespace max_workers False file_path
                         worker_pool set_active w = (Inr fl, w1)"
    using assms(1) by (cases "make_flow env name tags' user_namespace max_workers False file_path
                         worker_pool set_active w") simp
  from make_flow_keeps[of env name tags' user_namespace max_workers False file_path
                         worker_pool set_active w] mf
  have keep: "stdout w1 = stdout w" "s3 w1 = s3 w" "files w1 = files w" by simp_all
  show ?thesis
    unfolding create_def mf
    using assms(2) keep
    by (auto simp: called_def echo_always_def Let_def split: option.splits)
qed

text \<open>
  The three destinations in turn.  The local file \<open>dag.py\<close> held \<open>old\<close>; after the command
  it holds the compiled text.
\<close>

lemma plain_make_flow:
  "fst (make_flow plain_env (Some (lit ''foo'')) [] None 100 False file_path None False aw0)
   = Inr \<lparr>arg_name = lit ''foo'', arg_package_sha = lit ''sha'',
          arg_package_url = lit ''s3://bucket/pkg'', arg_tags = [], arg_namespace = None,
          arg_max_workers = 100, arg_worker_pool = None, arg_username = lit ''alice'',
          arg_is_project = False, arg_file_path = file_path, arg_set_active = False\<rparr>"
  by (simp add: make_flow_def resolve_dag_name_def called_def Let_def plain_env_def truthy_def
        VALID_NAME_search_def listed_def percent_s_def lit_def)

lemma plain_compile: "compile plain_env args = Inr (lit ''dag '' @ arg_name args)"
  by (simp add: plain_env_def)

theorem create_output_routing_witness:
  "stdout (snd (create plain_env None [] (Some (lit ''foo'')) False None 100 None aw0))
   = [lit ''dag foo'']
   \<and> s3 (snd (create plain_env (Some (lit ''s3://b/dag.py'')) [] (Some (lit ''foo'')) False None
                 100 None aw0)) (lit ''s3://b/dag.py'') = Some (lit ''dag foo'')
   \<and> files aw0 (lit ''dag.py'') = Some (lit ''old'')
   \<and> files (snd (create plain_env (Some (lit ''dag.py'')) [] (Some (lit ''foo'')) False None 100
                   None aw0)) (lit ''dag.py'') = Some (lit ''dag foo'')"
  using create_output_routing[OF plain_make_flow plain_compile, of None]
        create_output_routing[OF plain_make_flow plain_compile, of "Some (lit ''s3://b/dag.py'')"]
        create_output_routing[OF plain_make_flow plain_compile, of "Some (lit ''dag.py'')"]
  by (simp add: plain_env_def startswith_def aw0_def lit_def split: prod.splits)


end
